theory Spec2Isabelle
  imports Main
begin

section \<open>The OpenADR client (VEN) and the EiEvent service, as HOL functions\<close>

text \<open>
  The development embeds \<^verbatim>\<open>openleadr/client.py\<close> (class \<^verbatim>\<open>OpenADRClient\<close>) and
  \<^verbatim>\<open>openleadr/service/event_service.py\<close> (class \<^verbatim>\<open>EventService\<close>).
  A method becomes a function that takes the client object and returns the outcome of
  the call (an exception or a value) together with the client as the call leaves it.
  Python names that start with an underscore carry the prefix \<open>priv_\<close> here.
\<close>

subsection \<open>Values\<close>

text \<open>
  A \<^verbatim>\<open>timedelta\<close> is its length in microseconds, a \<^verbatim>\<open>datetime\<close> a point on the same
  scale, so Python's comparisons of durations are the comparisons of \<^typ>\<open>int\<close>.
  The value that a report callable produces is opaque to the client.
\<close>

type_synonym timedelta = int
type_synonym datetime = int
type_synonym scalar = int

definition seconds :: "int \<Rightarrow> timedelta" where
  "seconds n = n * 1000000"

definition hours :: "int \<Rightarrow> timedelta" where
  "hours n = n * 3600 * 1000000"

text \<open>\<^verbatim>\<open>timedelta.seconds\<close>: the seconds within the day, whole days and microseconds left out.\<close>

definition td_seconds :: "timedelta \<Rightarrow> int" where
  "td_seconds d = (d div 1000000) mod 86400"

datatype exn =
    KeyError string
  | IndexError
  | AttributeError string
  | NameError string
  | UnboundLocalError string
  | TypeError string
  | ValueError string
  | ParseError string
  | ApplicationError string

datatype level = DEBUG | INFO | WARNING | ERROR

subsection \<open>The objects of \<^verbatim>\<open>openleadr.objects\<close> that the client builds\<close>

record sampling_rate =
  min_period :: timedelta
  max_period :: timedelta
  on_change :: bool

record measurement =
  item_name :: string
  item_description :: string
  item_units :: "string option"
  acceptable_units :: "string list"
  si_scale_code :: "string option"

text \<open>
  \<open>callable\<close> is what invoking the application's zero-argument callable yields (awaited
  when it is a coroutine): the exception it raises or the value it returns.
\<close>

record report_description =
  r_id :: string
  reading_type :: string
  report_data_source :: string
  report_subject :: string
  report_type :: string
  sampling_rate :: sampling_rate
  measurement :: measurement
  market_context :: string
  callable :: "exn + scalar"

record report_payload =
  payload_r_id :: string
  payload_value :: scalar

record report_interval =
  dtstart :: datetime
  report_payload :: report_payload

record report =
  created_date_time :: "datetime option"
  report_name :: string
  report_specifier_id :: string
  report_request_id :: "string option"
  report_descriptions :: "report_description list"
  intervals :: "report_interval list"

subsection \<open>Parsed messages\<close>

text \<open>
  A parsed message is a dict. One dict type serves every message type, so each key that a
  method reads from it is an optional field here, and reading an absent key is a
  \<open>KeyError\<close>. The \<^verbatim>\<open>oadrReportRequest\<close> element inside it is always of one shape: the keys
  that \<^verbatim>\<open>create_report\<close> subscripts are plain fields, the keys that it tests with
  \<^verbatim>\<open>in\<close> or reads with \<^verbatim>\<open>.get\<close> are optional, and \<open>granularity\<close> may hold \<^verbatim>\<open>None\<close>.
\<close>

record response_dict =
  response_code :: "int option"
  response_description :: "string option"

record event_descriptor =
  event_id :: "string option"

record event =
  event_descriptor :: "event_descriptor option"

record measurement_dict =
  md_item_description :: string
  md_item_units :: "string option"

record specifier_payload =
  sp_r_id :: string
  sp_reading_type :: string
  sp_measurement :: "measurement_dict option"

record report_specifier =
  rs_report_specifier_id :: string
  rs_granularity :: "timedelta option"
  rs_report_back_duration :: "timedelta option"
  rs_report_interval :: "(datetime \<times> timedelta) option"
  rs_dtstart :: "datetime option"
  rs_duration :: "timedelta option"
  rs_specifier_payloads :: "specifier_payload list"

record report_request =
  rq_report_request_id :: string
  rq_report_specifier :: report_specifier

record payload =
  p_response :: "response_dict option"
  p_ven_id :: "string option"
  p_requested_oadr_poll_freq :: "timedelta option"
  p_request_id :: "string option"
  p_events :: "event list option"
  p_report_requests :: "report_request list option"
  p_cancel_report :: "string option"

text \<open>The empty dict \<^verbatim>\<open>{}\<close>.\<close>

definition empty_payload :: payload where
  "empty_payload = \<lparr>p_response = None, p_ven_id = None, p_requested_oadr_poll_freq = None,
     p_request_id = None, p_events = None, p_report_requests = None, p_cancel_report = None\<rparr>"

subsection \<open>Outgoing messages\<close>

text \<open>
  \<^verbatim>\<open>create_message\<close> serialises and signs outside the client; a message is kept as the
  message type and the fields that the client hands over.
\<close>

record party_registration =
  reg_ven_name :: string
  reg_http_pull_model :: bool
  reg_xml_signature :: bool
  reg_report_only :: bool
  reg_profile_name :: string
  reg_transport_name :: string
  reg_transport_address :: "string option"
  reg_ven_id :: "string option"

datatype message =
    OadrPoll "string option"
  | OadrCreatePartyRegistration string party_registration
  | OadrCreatedEvent "string option" string string string
  | OadrRegisterReport string "string option" "report list"
  | OadrUpdateReport "report list"

subsection \<open>The scheduler\<close>

text \<open>
  A cron field is \<^verbatim>\<open>"*"\<close>, \<^verbatim>\<open>"a/b"\<close>, \<^verbatim>\<open>"*/n"\<close> or a single value. A job is the
  coroutine to run and its cron trigger; \<^verbatim>\<open>add_job\<close> appends it to the scheduler's jobs.
\<close>

datatype cron_field = Star | StepFrom int int | EveryN int | At int

record cron =
  second :: cron_field
  minute :: cron_field
  hour :: cron_field

datatype job_func = PollJob | UpdateReportJob string

record job =
  func :: job_func
  trigger :: cron

subsection \<open>The world outside the client\<close>

text \<open>
  What one HTTP POST does: the server answers with a status and a body, the connection
  cannot be made (\<^verbatim>\<open>ClientConnectorError\<close>), or another exception leaves the
  \<^verbatim>\<open>async with\<close> block before \<^verbatim>\<open>content\<close> is bound.
\<close>

datatype http_outcome =
    Responded int string
  | ClientConnectorError
  | OtherException

text \<open>
  The collaborators that are not part of the client are parameters: the VTN behind each
  service endpoint (polls apart, which are scripted), the parser and verifier of replies,
  the UTF-8 decoder, \<^verbatim>\<open>generate_id\<close>, the clock, \<^verbatim>\<open>randint\<close>, \<^verbatim>\<open>cron_config\<close> and the
  vocabularies of \<^verbatim>\<open>openleadr.enums\<close>. \<open>generate_id\<close> gives the id of the \<open>n\<close>-th draw,
  \<open>now\<close> the instant that the clock shows during a call, and \<open>random\<close> the number from
  which \<^verbatim>\<open>randint\<close> takes its draw.
\<close>

record env =
  vtn :: "string \<Rightarrow> message \<Rightarrow> http_outcome"
  parse_message :: "string \<Rightarrow> exn + string \<times> payload"
  decodes :: "string \<Rightarrow> bool"
  generate_id :: "nat \<Rightarrow> string"
  now :: datetime
  random :: int
  cron_config :: "timedelta option \<Rightarrow> exn + cron"
  REPORT_NAME_values :: "string list"
  READING_TYPE_values :: "string list"
  REPORT_TYPE_values :: "string list"
  SI_SCALE_CODE_values :: "string list"
  MEASUREMENTS :: "(string \<times> measurement) list"

subsection \<open>The client object\<close>

record report_request_entry =
  rr_report_request_id :: string
  rr_report_specifier_id :: string
  rr_r_ids :: "string list"
  rr_granularity :: "timedelta option"
  rr_job :: job

text \<open>
  \<open>Log\<close> is a call of the module's logger, \<open>Sent\<close> a POST to a service, \<open>Called\<close> the
  invocation of an application handler, \<open>Breakpoint\<close> a call of \<^verbatim>\<open>breakpoint()\<close>, after
  which execution goes on.
\<close>

datatype effect =
    Log level string
  | Sent string message
  | Called string
  | Breakpoint

text \<open>
  \<open>on_event\<close> is the attribute that the application sets on the client; the class defines
  none, so it is absent until then.
\<close>

record client =
  ven_name :: string
  vtn_url :: string
  ven_id :: "string option"
  poll_frequency :: "timedelta option"
  reports :: "report list"
  report_requests :: "report_request_entry list"
  pending_reports :: "report list"
  scheduler_jobs :: "job list"
  scheduler_running :: bool
  report_queue_task :: bool
  on_event :: "(payload \<Rightarrow> exn + string) option"
  ids_drawn :: nat
  trace :: "effect list"

text \<open>
  A call runs on the object \<open>'s\<close> and ends in an exception or a value; \<open>andthen\<close> is
  sequencing, where an exception ends the sequence.
\<close>

type_synonym ('s, 'a) act = "'s \<Rightarrow> (exn + 'a) \<times> 's"
type_synonym 'a action = "(client, 'a) act"

definition return :: "'a \<Rightarrow> ('s, 'a) act" where
  "return x s = (Inr x, s)"

definition raise :: "exn \<Rightarrow> ('s, 'a) act" where
  "raise e s = (Inl e, s)"

definition andthen :: "('s, 'a) act \<Rightarrow> ('a \<Rightarrow> ('s, 'b) act) \<Rightarrow> ('s, 'b) act" where
  "andthen m f s = (case m s of (Inl e, s') \<Rightarrow> (Inl e, s') | (Inr x, s') \<Rightarrow> f x s')"

definition emit :: "effect \<Rightarrow> unit action" where
  "emit e s = (Inr (), s\<lparr>trace := trace s @ [e]\<rparr>)"

definition logger :: "level \<Rightarrow> string \<Rightarrow> unit action" where
  "logger l text = emit (Log l text)"

definition draw_id :: "env \<Rightarrow> string action" where
  "draw_id env s = (Inr (generate_id env (ids_drawn s)), s\<lparr>ids_drawn := Suc (ids_drawn s)\<rparr>)"

text \<open>\<^verbatim>\<open>d[key]\<close> on a dict: the value, or \<open>KeyError\<close>.\<close>

definition subscript :: "string \<Rightarrow> 'a option \<Rightarrow> ('s, 'a) act" where
  "subscript key v = (case v of None \<Rightarrow> raise (KeyError key) | Some x \<Rightarrow> return x)"

subsection \<open>\<^verbatim>\<open>_perform_request\<close>\<close>

text \<open>
  The last argument is what the POST does. A status other than 200 and a connection
  failure are logged and give \<^verbatim>\<open>(None, {})\<close>. After any other exception the handler calls
  \<^verbatim>\<open>breakpoint()\<close>; \<^verbatim>\<open>content\<close> is then bound only if the exception came from decoding it
  for the debug log, and unbound otherwise, in which case the second \<^verbatim>\<open>try\<close> fails with
  \<open>UnboundLocalError\<close> and so does the error message of its handler. A reply that
  \<^verbatim>\<open>_parse_message\<close> rejects is logged and the exception raised again.
\<close>

definition parse_reply :: "env \<Rightarrow> string \<Rightarrow> (string option \<times> payload) action" where
  "parse_reply env content =
     (case parse_message env content of
        Inl err \<Rightarrow>
          andthen (logger ERROR ''The incoming message could not be parsed or validated'')
            (\<lambda>_. raise err)
      | Inr (message_type, message_payload) \<Rightarrow> return (Some message_type, message_payload))"

definition priv_perform_request ::
  "env \<Rightarrow> string \<Rightarrow> message \<Rightarrow> http_outcome \<Rightarrow> (string option \<times> payload) action" where
  "priv_perform_request env service message outcome =
     andthen (logger DEBUG ''Client is sending'') (\<lambda>_.
     andthen (emit (Sent service message)) (\<lambda>_.
       case outcome of
         Responded status content \<Rightarrow>
           if status \<noteq> 200 then
             andthen (logger WARNING ''Non-OK status when performing a request'')
               (\<lambda>_. return (None, empty_payload))
           else if decodes env content then
             andthen (logger DEBUG content) (\<lambda>_. parse_reply env content)
           else
             andthen (emit Breakpoint) (\<lambda>_. parse_reply env content)
       | ClientConnectorError \<Rightarrow>
           andthen (logger ERROR ''Could not connect to server with URL'') (\<lambda>_.
           andthen (logger ERROR ''ClientConnectorError'') (\<lambda>_.
             return (None, empty_payload)))
       | OtherException \<Rightarrow>
           andthen (emit Breakpoint) (\<lambda>_. raise (UnboundLocalError ''content''))))"

text \<open>A request to a service other than the poll endpoint is answered by the VTN of \<open>env\<close>.\<close>

definition request :: "env \<Rightarrow> string \<Rightarrow> message \<Rightarrow> (string option \<times> payload) action" where
  "request env service message = priv_perform_request env service message (vtn env service message)"

subsection \<open>Helpers\<close>

text \<open>
  Modelled from the spec: \<^verbatim>\<open>find_by\<close> of \<^verbatim>\<open>openleadr.utils\<close> is not among the sources.
  The spec asks that a definition "must exist" for a specifier id and that a requested
  \<^verbatim>\<open>rId\<close> "must match a known descriptor": \<open>find_by\<close> gives the first item of the list
  whose named attributes have the given values, and \<^verbatim>\<open>None\<close> when no item has.
\<close>

definition find_by :: "'a list \<Rightarrow> ('a \<Rightarrow> bool) \<Rightarrow> 'a option" where
  "find_by items matches = List.find matches items"

text \<open>Truth value of an optional string: \<^verbatim>\<open>None\<close> and \<^verbatim>\<open>''\<close> are false.\<close>

definition truthy :: "string option \<Rightarrow> bool" where
  "truthy v = (case v of None \<Rightarrow> False | Some text \<Rightarrow> text \<noteq> [])"



text \<open>\<^verbatim>\<open>randint(a, b)\<close> draws from \<open>a..b\<close> and raises on an empty range.\<close>

definition randint :: "env \<Rightarrow> int \<Rightarrow> int \<Rightarrow> ('s, int) act" where
  "randint env a b =
     (if b < a then raise (ValueError ''empty range for randrange()'')
      else return (a + random env mod (b - a + 1)))"

definition modify :: "('s \<Rightarrow> 's) \<Rightarrow> ('s, unit) act" where
  "modify f s = (Inr (), f s)"

definition add_job :: "job \<Rightarrow> job action" where
  "add_job j s = (Inr j, s\<lparr>scheduler_jobs := scheduler_jobs s @ [j]\<rparr>)"

subsection \<open>\<^verbatim>\<open>create_party_registration\<close>\<close>

record registration_options =
  http_pull_model :: bool
  xml_signature :: bool
  report_only :: bool
  profile_name :: string
  transport_name :: string
  transport_address :: "string option"
  opt_ven_id :: "string option"

definition default_registration :: registration_options where
  "default_registration =
     \<lparr>http_pull_model = True, xml_signature = False, report_only = False,
      profile_name = ''2.0b'', transport_name = ''simpleHttp'', transport_address = None,
      opt_ven_id = None\<rparr>"

definition registration_payload :: "registration_options \<Rightarrow> client \<Rightarrow> party_registration" where
  "registration_payload opts s =
     \<lparr>reg_ven_name = ven_name s,
      reg_http_pull_model = http_pull_model opts,
      reg_xml_signature = xml_signature opts,
      reg_report_only = report_only opts,
      reg_profile_name = profile_name opts,
      reg_transport_name = transport_name opts,
      reg_transport_address = transport_address opts,
      reg_ven_id = (if truthy (opt_ven_id opts) then opt_ven_id opts else None)\<rparr>"

text \<open>
  The value is \<^verbatim>\<open>None\<close> after a bare \<^verbatim>\<open>return\<close> and the pair of reply type and payload
  after a registration. \<open>registration_reply\<close> is the body from the test of \<open>response_type\<close>
  on: the two assignments to the client come after every subscript that can fail.
  \<open>get_requested_oadr_poll_freq\<close> is \<^verbatim>\<open>.get('requested_oadr_poll_freq', timedelta(seconds=10))\<close>.
\<close>

definition get_requested_oadr_poll_freq :: "payload \<Rightarrow> timedelta" where
  "get_requested_oadr_poll_freq response_payload =
     (case p_requested_oadr_poll_freq response_payload of
        None \<Rightarrow> seconds 10
      | Some freq \<Rightarrow> freq)"

definition registration_reply ::
  "string option \<times> payload \<Rightarrow> (string option \<times> payload) option action" where
  "registration_reply reply =
     (case reply of (response_type, response_payload) \<Rightarrow>
        if response_type = None then return None
        else
          andthen (subscript ''response'' (p_response response_payload)) (\<lambda>response.
          andthen (subscript ''response_code'' (response_code response)) (\<lambda>status_code.
            if status_code \<noteq> 200 then
              andthen (subscript ''response_description'' (response_description response))
                (\<lambda>status_description.
              andthen (logger ERROR ''Got error on Create Party Registration'')
                (\<lambda>_. return None))
            else
              andthen (subscript ''ven_id'' (p_ven_id response_payload)) (\<lambda>new_ven_id.
              andthen (modify (\<lambda>s. s\<lparr>ven_id := Some new_ven_id\<rparr>)) (\<lambda>_.
              andthen (modify (\<lambda>s. s\<lparr>poll_frequency :=
                         Some (get_requested_oadr_poll_freq response_payload)\<rparr>)) (\<lambda>_.
              andthen (logger INFO ''VEN is now registered with ID'') (\<lambda>_.
              andthen (logger INFO ''The polling frequency is'') (\<lambda>_.
                return (Some (response_type, response_payload))))))))))"

text \<open>Two ids are generated; the message carries the second.\<close>

definition create_party_registration ::
  "env \<Rightarrow> registration_options \<Rightarrow> (string option \<times> payload) option action" where
  "create_party_registration env opts =
     andthen (draw_id env) (\<lambda>request_id.
     andthen (draw_id env) (\<lambda>message_request_id.
     andthen (\<lambda>s. request env ''EiRegisterParty''
                (OadrCreatePartyRegistration message_request_id (registration_payload opts s)) s)
       registration_reply))"


subsection \<open>\<^verbatim>\<open>add_report\<close>\<close>












subsection \<open>\<^verbatim>\<open>create_report\<close>\<close>

text \<open>
  One pass of the loop over the specifier payloads ends in \<^verbatim>\<open>continue\<close> after an error
  message, in an exception, or at \<^verbatim>\<open>requested_r_ids.append(r_id)\<close>. The variable
  \<open>granularity\<close> is the one of the request until a pass finds it \<^verbatim>\<open>None\<close> and assigns the
  descriptor's \<open>max_period\<close>, which the later passes then see. With \<open>report_interval\<close> in
  the specifier, \<open>dtstart\<close> and \<open>duration\<close> are read from the specifier itself.
\<close>

datatype verdict = Skipped string | Raised exn | Accepted "timedelta option"

definition measurement_differs :: "specifier_payload \<Rightarrow> report_description \<Rightarrow> string option" where
  "measurement_differs sp rd =
     (case sp_measurement sp of
        None \<Rightarrow> None
      | Some m \<Rightarrow>
          if md_item_description m \<noteq> item_description (measurement rd) then
            Some ''A non-matching measurement description''
          else if md_item_units m \<noteq> item_units (measurement rd) then
            Some ''A non-matching measurement unit''
          else None)"

definition read_interval :: "report_specifier \<Rightarrow> timedelta option \<Rightarrow> verdict" where
  "read_interval spec granularity =
     (case rs_report_interval spec of
        None \<Rightarrow> Accepted granularity
      | Some _ \<Rightarrow>
          (case rs_dtstart spec of
             None \<Rightarrow> Raised (KeyError ''dtstart'')
           | Some _ \<Rightarrow>
               (case rs_duration spec of
                  None \<Rightarrow> Raised (KeyError ''duration'')
                | Some _ \<Rightarrow> Accepted granularity)))"

definition examine ::
  "report \<Rightarrow> report_specifier \<Rightarrow> timedelta option \<Rightarrow> specifier_payload \<Rightarrow> verdict" where
  "examine report spec granularity sp =
     (case find_by (report_descriptions report) (\<lambda>rd. r_id rd = sp_r_id sp) of
        None \<Rightarrow> Skipped ''A non-existant report with r_id''
      | Some rd \<Rightarrow>
          (case measurement_differs sp rd of
             Some text \<Rightarrow> Skipped text
           | None \<Rightarrow>
               (case granularity of
                  Some g \<Rightarrow>
                    if \<not> (min_period (sampling_rate rd) \<le> g \<and> g \<le> max_period (sampling_rate rd))
                    then Skipped ''An invalid sampling rate''
                    else read_interval spec granularity
                | None \<Rightarrow> read_interval spec (Some (max_period (sampling_rate rd))))))"




text \<open>The entry and the job that \<^verbatim>\<open>create_report\<close> builds at its end.\<close>

definition report_job :: "report_request \<Rightarrow> cron \<Rightarrow> job" where
  "report_job rq config = \<lparr>func = UpdateReportJob (rq_report_request_id rq), trigger = config\<rparr>"

definition request_entry ::
  "report_request \<Rightarrow> string list \<Rightarrow> timedelta option \<Rightarrow> job \<Rightarrow> report_request_entry" where
  "request_entry rq requested_r_ids granularity job =
     \<lparr>rr_report_request_id = rq_report_request_id rq,
      rr_report_specifier_id = rs_report_specifier_id (rq_report_specifier rq),
      rr_r_ids = requested_r_ids,
      rr_granularity = granularity,
      rr_job = job\<rparr>"

fun collect_r_ids ::
  "report \<Rightarrow> report_specifier \<Rightarrow> specifier_payload list \<Rightarrow> timedelta option \<Rightarrow> string list
     \<Rightarrow> (timedelta option \<times> string list) action" where
  "collect_r_ids report spec [] granularity requested_r_ids =
     return (granularity, requested_r_ids)"
| "collect_r_ids report spec (sp # rest) granularity requested_r_ids =
     (case examine report spec granularity sp of
        Skipped text \<Rightarrow>
          andthen (logger ERROR text)
            (\<lambda>_. collect_r_ids report spec rest granularity requested_r_ids)
      | Raised err \<Rightarrow> raise err
      | Accepted granularity' \<Rightarrow>
          collect_r_ids report spec rest granularity' (requested_r_ids @ [sp_r_id sp]))"

text \<open>
  The value is \<^verbatim>\<open>False\<close> when the report does not exist and \<^verbatim>\<open>None\<close> at the end of the
  body. The job is added and the entry appended whatever the list of accepted ids holds.
\<close>

definition create_report :: "env \<Rightarrow> report_request \<Rightarrow> bool option action" where
  "create_report env rq =
     (let spec = rq_report_specifier rq in
      (\<lambda>s. case find_by (reports s) (\<lambda>r. report_specifier_id r = rs_report_specifier_id spec) of
              None \<Rightarrow>
                andthen (logger ERROR ''A non-existant report with report_specifier_id'')
                  (\<lambda>_. return (Some False)) s
            | Some report \<Rightarrow>
                andthen (collect_r_ids report spec (rs_specifier_payloads spec)
                           (rs_granularity spec) [])
                  (\<lambda>(granularity, requested_r_ids).
                     case cron_config env granularity of
                       Inl err \<Rightarrow> raise err
                     | Inr config \<Rightarrow>
                         andthen (add_job (report_job rq config)) (\<lambda>job.
                         andthen (modify (\<lambda>s. s\<lparr>report_requests := report_requests s @
                                    [request_entry rq requested_r_ids granularity job]\<rparr>)) (\<lambda>_.
                           return None))) s))"

subsection \<open>\<^verbatim>\<open>register_reports\<close>\<close>

fun create_reports :: "env \<Rightarrow> report_request list \<Rightarrow> unit action" where
  "create_reports env [] = return ()"
| "create_reports env (rq # rest) =
     andthen (create_report env rq) (\<lambda>result. create_reports env rest)"

definition register_reports :: "env \<Rightarrow> report list \<Rightarrow> (string option \<times> payload) action" where
  "register_reports env reports_arg =
     andthen (draw_id env) (\<lambda>request_id.
     andthen (draw_id env) (\<lambda>payload_request_id.
     andthen (\<lambda>s. request env ''EiReport''
                (OadrRegisterReport payload_request_id (ven_id s) reports_arg) s)
       (\<lambda>(response_type, response_payload).
     andthen (case p_report_requests response_payload of
                Some requests \<Rightarrow> create_reports env requests
              | None \<Rightarrow> return ()) (\<lambda>_.
       return (response_type, response_payload)))))"

subsection \<open>\<^verbatim>\<open>update_report\<close>\<close>

text \<open>
  The loop over the accepted ids calls each descriptor's callable in turn, with no
  handler around the call: an exception leaves the loop and the method. When \<open>find_by\<close>
  found no report or no descriptor, the attribute read on \<^verbatim>\<open>None\<close> raises.
\<close>

fun collect_intervals :: "env \<Rightarrow> report option \<Rightarrow> string list \<Rightarrow> exn + report_interval list" where
  "collect_intervals env report [] = Inr []"
| "collect_intervals env report (rid # rest) =
     (case report of
        None \<Rightarrow> Inl (AttributeError ''report_descriptions'')
      | Some rep \<Rightarrow>
          (case find_by (report_descriptions rep) (\<lambda>rd. r_id rd = rid) of
             None \<Rightarrow> Inl (AttributeError ''callable'')
           | Some specific_report \<Rightarrow>
               (case callable specific_report of
                  Inl err \<Rightarrow> Inl err
                | Inr result \<Rightarrow>
                    (case collect_intervals env report rest of
                       Inl err \<Rightarrow> Inl err
                     | Inr later \<Rightarrow>
                         Inr (\<lparr>dtstart = now env,
                               report_payload = \<lparr>payload_r_id = rid, payload_value = result\<rparr>\<rparr>
                              # later)))))"

text \<open>
  What the callable registered for an id yields in this report; \<^verbatim>\<open>None\<close> when the report
  has no descriptor with the id.
\<close>

definition reading :: "report \<Rightarrow> string \<Rightarrow> (exn + scalar) option" where
  "reading rep rid = map_option callable (find_by (report_descriptions rep) (\<lambda>rd. r_id rd = rid))"

text \<open>The report that a tick puts on the queue.\<close>

definition pending_report :: "report \<Rightarrow> string \<Rightarrow> report_interval list \<Rightarrow> report" where
  "pending_report rep request_id collected =
     \<lparr>created_date_time = None,
      report_name = report_name rep,
      report_specifier_id = report_specifier_id rep,
      report_request_id = Some request_id,
      report_descriptions = [],
      intervals = collected\<rparr>"

definition update_report :: "env \<Rightarrow> string \<Rightarrow> unit action" where
  "update_report env request_id s =
     (case find_by (report_requests s) (\<lambda>rr. rr_report_request_id rr = request_id) of
        None \<Rightarrow> raise (TypeError ''NoneType object is not subscriptable'') s
      | Some entry \<Rightarrow>
          (let report = find_by (reports s)
                          (\<lambda>r. report_specifier_id r = rr_report_specifier_id entry)
           in case collect_intervals env report (rr_r_ids entry) of
                Inl err \<Rightarrow> raise err s
              | Inr collected \<Rightarrow>
                  (case report of
                     None \<Rightarrow> raise (AttributeError ''report_specifier_id'') s
                   | Some rep \<Rightarrow>
                       modify (\<lambda>s. s\<lparr>pending_reports := pending_reports s @
                         [pending_report rep request_id collected]\<rparr>) s)))"

subsection \<open>\<^verbatim>\<open>cancel_report\<close> and \<^verbatim>\<open>_report_queue_worker\<close>\<close>

text \<open>The body of \<^verbatim>\<open>cancel_report\<close> is its docstring, "Cancel this report."\<close>

definition cancel_report :: "string \<Rightarrow> unit action" where
  "cancel_report cancel_payload = return ()"

text \<open>
  One pass of the worker's loop for the report taken from the queue. \<open>bound\<close> is the value
  of the local \<open>response_payload\<close> when the pass begins: unbound in the first pass, the
  payload of the pass before afterwards. When the request raises, the handler calls
  \<^verbatim>\<open>breakpoint()\<close> and the variable keeps that value.
\<close>

definition worker_pass :: "env \<Rightarrow> payload option \<Rightarrow> report \<Rightarrow> payload action" where
  "worker_pass env bound report s =
     (let acknowledge = (\<lambda>response_payload.
            case p_cancel_report response_payload of
              Some cancel_payload \<Rightarrow>
                andthen (cancel_report cancel_payload) (\<lambda>_. return response_payload)
            | None \<Rightarrow> return response_payload)
      in case request env ''EiReport'' (OadrUpdateReport [report]) s of
           (Inl err, s') \<Rightarrow>
             andthen (emit Breakpoint) (\<lambda>_.
               case bound of
                 None \<Rightarrow> raise (UnboundLocalError ''response_payload'')
               | Some response_payload \<Rightarrow> acknowledge response_payload) s'
         | (Inr (response_type, response_payload), s') \<Rightarrow> acknowledge response_payload s')"

text \<open>
  The worker takes the reports of the queue in order. \<open>reports_waiting\<close> is the content of
  the queue when the worker runs; with the queue empty the worker is suspended in
  \<^verbatim>\<open>get()\<close>, which is where the function ends.
\<close>

fun worker_loop :: "env \<Rightarrow> payload option \<Rightarrow> report list \<Rightarrow> unit action" where
  "worker_loop env bound [] s = (Inr (), s)"
| "worker_loop env bound (report # waiting) s =
     (case worker_pass env bound report (s\<lparr>pending_reports := waiting\<rparr>) of
        (Inl err, s') \<Rightarrow> (Inl err, s')
      | (Inr response_payload, s') \<Rightarrow> worker_loop env (Some response_payload) waiting s')"

definition priv_report_queue_worker :: "env \<Rightarrow> unit action" where
  "priv_report_queue_worker env s = worker_loop env None (pending_reports s) s"

subsection \<open>Events and the poll loop\<close>

definition created_event :: "env \<Rightarrow> string \<Rightarrow> string \<Rightarrow> string \<Rightarrow> unit action" where
  "created_event env request_id event opt_type =
     andthen (\<lambda>s. request env ''EiEvent''
                (OadrCreatedEvent (ven_id s) request_id event opt_type) s)
       (\<lambda>(response_type, response_payload). return ())"

text \<open>
  \<^verbatim>\<open>self.on_event(message)\<close>, awaited when it is a coroutine. \<^verbatim>\<open>self.on_event\<close> is looked
  up on the client: the class has no such attribute, so the lookup fails unless the
  application has set one.
\<close>

definition invoke_on_event :: "payload \<Rightarrow> string action" where
  "invoke_on_event message s =
     (case on_event s of
        None \<Rightarrow> raise (AttributeError ''on_event'') s
      | Some handler \<Rightarrow>
          andthen (emit (Called ''on_event''))
            (\<lambda>_. case handler message of
                    Inl err \<Rightarrow> raise err
                  | Inr result \<Rightarrow> return result) s)"

definition priv_on_event :: "env \<Rightarrow> payload \<Rightarrow> unit action" where
  "priv_on_event env message =
     andthen (logger DEBUG ''The VEN received an event'') (\<lambda>_.
     andthen (invoke_on_event message) (\<lambda>result.
     andthen (logger DEBUG ''Now responding with'') (\<lambda>_.
     andthen (subscript ''request_id'' (p_request_id message)) (\<lambda>request_id.
     andthen (subscript ''events'' (p_events message)) (\<lambda>events.
     andthen (case events of [] \<Rightarrow> raise IndexError | first # _ \<Rightarrow> return first) (\<lambda>first.
     andthen (subscript ''event_descriptor'' (event_descriptor first)) (\<lambda>descriptor.
     andthen (subscript ''event_id'' (event_id descriptor)) (\<lambda>event.
       created_event env request_id event result))))))))"

definition poll :: "env \<Rightarrow> http_outcome \<Rightarrow> (string option \<times> payload) action" where
  "poll env outcome s = priv_perform_request env ''OadrPoll'' (OadrPoll (ven_id s)) outcome s"

text \<open>
  What \<^verbatim>\<open>_poll\<close> does with a reply that is neither absent nor \<^verbatim>\<open>oadrResponse\<close>: the
  \<^verbatim>\<open>if\<close> for re-registration, then the \<^verbatim>\<open>if\<close>/\<^verbatim>\<open>elif\<close>/\<^verbatim>\<open>else\<close> over the other types.
  The class defines no \<^verbatim>\<open>_on_report\<close>.
\<close>

definition handle_reply :: "env \<Rightarrow> string \<Rightarrow> payload \<Rightarrow> unit action" where
  "handle_reply env response_type response_payload =
     andthen
       (if response_type = ''oadrRequestReregistration'' then
          andthen (logger INFO ''The VTN required us to re-register'') (\<lambda>_.
          andthen (create_party_registration env default_registration) (\<lambda>_. return ()))
        else return ()) (\<lambda>_.
     if response_type = ''oadrDistributeEvent'' then priv_on_event env response_payload
     else if response_type = ''oadrUpdateReport'' then raise (AttributeError ''_on_report'')
     else logger WARNING ''No handler implemented for incoming message'')"

text \<open>
  The replies to the successive polls are scripted: each call of \<^verbatim>\<open>_poll\<close> takes the next
  one, and the recursive call at the end of the body goes on with the rest. After the
  script the server cannot be reached any more.
\<close>

fun priv_poll :: "env \<Rightarrow> http_outcome list \<Rightarrow> unit action" where
  "priv_poll env [] s =
     (case andthen (logger DEBUG ''Now polling for new messages'')
             (\<lambda>_. poll env ClientConnectorError) s of
        (Inl err, s') \<Rightarrow> (Inl err, s')
      | (Inr reply, s') \<Rightarrow> (Inr (), s'))"
| "priv_poll env (outcome # script) s =
     (case andthen (logger DEBUG ''Now polling for new messages'') (\<lambda>_. poll env outcome) s of
        (Inl err, s') \<Rightarrow> (Inl err, s')
      | (Inr (None, response_payload), s') \<Rightarrow> (Inr (), s')
      | (Inr (Some response_type, response_payload), s') \<Rightarrow>
          if response_type = ''oadrResponse'' then
            logger DEBUG ''No events or reports available'' s'
          else
            (case handle_reply env response_type response_payload s' of
               (Inl err, s'') \<Rightarrow> (Inl err, s'')
             | (Inr _, s'') \<Rightarrow> priv_poll env script s''))"



definition is_poll :: "effect \<Rightarrow> bool" where
  "is_poll e = (case e of Sent service message \<Rightarrow> service = ''OadrPoll'' | _ \<Rightarrow> False)"

definition polls_sent :: "effect list \<Rightarrow> nat" where
  "polls_sent tr = length (filter is_poll tr)"

definition is_dispatch :: "effect \<Rightarrow> bool" where
  "is_dispatch e = (case e of Called name \<Rightarrow> name = ''on_event'' | _ \<Rightarrow> False)"

definition dispatched :: "effect list \<Rightarrow> nat" where
  "dispatched tr = length (filter is_dispatch tr)"

definition steady :: "'a action \<Rightarrow> bool" where
  "steady m =
     (\<forall>s. on_event (snd (m s)) = on_event s
        \<and> polls_sent (trace (snd (m s))) = polls_sent (trace s)
        \<and> dispatched (trace (snd (m s))) = dispatched (trace s))"

subsection \<open>\<^verbatim>\<open>run\<close>\<close>

text \<open>
  \<^verbatim>\<open>run\<close> registers, gives up without a \<open>ven_id\<close>, registers the reports and creates the
  queue worker's task (recorded in \<open>report_queue_task\<close>; the task runs on its own), polls,
  and schedules the poll job.

  The end of \<^verbatim>\<open>run\<close>: the cron fields from the poll frequency, then the job and the start
  of the scheduler. The last \<^verbatim>\<open>elif\<close> tests \<open>> 86400\<close> and its branch ends in
  \<^verbatim>\<open>return\<close>; at exactly 86400 seconds no branch is taken and \<open>cron_second\<close> is unbound
  when \<^verbatim>\<open>add_job\<close> is called.
\<close>

definition poll_trigger :: "env \<Rightarrow> timedelta \<Rightarrow> cron option action" where
  "poll_trigger env freq =
     (if freq < seconds 60 then
        andthen (randint env 0 (td_seconds freq)) (\<lambda>seconds_offset.
          return (Some \<lparr>second = StepFrom seconds_offset (td_seconds freq),
                        minute = Star, hour = Star\<rparr>))
      else if freq < seconds 3600 then
        andthen (randint env 0 59) (\<lambda>cron_second.
          return (Some \<lparr>second = At cron_second, minute = EveryN (freq div seconds 60),
                        hour = Star\<rparr>))
      else if freq < seconds 86400 then
        andthen (randint env 0 59) (\<lambda>cron_second.
          return (Some \<lparr>second = At cron_second, minute = At 0,
                        hour = EveryN (freq div seconds 3600)\<rparr>))
      else if freq > seconds 86400 then
        andthen (logger WARNING
                   ''Polling with intervals of more than 24 hours is not supported.'') (\<lambda>_.
        andthen (randint env 0 59) (\<lambda>cron_second. return None))
      else raise (UnboundLocalError ''cron_second''))"

definition schedule_polling :: "env \<Rightarrow> unit action" where
  "schedule_polling env s =
     (case poll_frequency s of
        None \<Rightarrow> raise (AttributeError ''total_seconds'') s
      | Some freq \<Rightarrow>
          andthen (poll_trigger env freq) (\<lambda>config.
            case config of
              None \<Rightarrow> return ()
            | Some cron_fields \<Rightarrow>
                andthen (add_job \<lparr>func = PollJob, trigger = cron_fields\<rparr>) (\<lambda>_.
                  modify (\<lambda>s. s\<lparr>scheduler_running := True\<rparr>))) s)"

definition run :: "env \<Rightarrow> http_outcome list \<Rightarrow> unit action" where
  "run env script =
     andthen (create_party_registration env default_registration) (\<lambda>_.
       (\<lambda>s. if \<not> truthy (ven_id s) then
               logger ERROR ''No VEN ID received from the VTN, aborting.'' s
             else
               andthen
                 (if reports s \<noteq> [] then
                    andthen (register_reports env (reports s)) (\<lambda>_.
                      modify (\<lambda>s. s\<lparr>report_queue_task := True\<rparr>))
                  else return ()) (\<lambda>_.
               andthen (priv_poll env script) (\<lambda>_. schedule_polling env)) s))"

subsection \<open>The EiEvent service\<close>

text \<open>
  \<^verbatim>\<open>event_service.py\<close> binds these names at module level, by its imports and its class
  statement. A global name that is not among them, and is no builtin, is a \<open>NameError\<close>
  when the code that uses it runs.
\<close>

definition module_names :: "string list" where
  "module_names = [''service'', ''handler'', ''VTNService'', ''datetime'', ''timedelta'',
     ''timezone'', ''iscoroutine'', ''objects'', ''EventService'']"

definition global_name :: "string \<Rightarrow> ('s, unit) act" where
  "global_name name = (if name \<in> set module_names then return () else raise (NameError name))"

text \<open>What an application handler returns: \<^verbatim>\<open>None\<close>, a dict, an \<^verbatim>\<open>Event\<close>, a list, or else.\<close>

datatype handler_result =
    ResultNone
  | ResultDict event
  | ResultEvent event
  | ResultList "event list"
  | ResultOther

text \<open>
  The service object: the handlers that the application has set on it, what the base class
  \<^verbatim>\<open>VTNService\<close> (not among the sources) provides under the name \<^verbatim>\<open>on_created_event\<close>,
  and the log.
\<close>

record event_service =
  app_on_request_event :: "(string \<Rightarrow> exn + handler_result) option"
  app_on_created_event :: "(payload \<Rightarrow> exn + handler_result) option"
  base_on_created_event :: "(payload \<Rightarrow> exn + handler_result) option"
  service_log :: "(level \<times> string) list"

definition service_logger :: "level \<Rightarrow> string \<Rightarrow> (event_service, unit) act" where
  "service_logger l text sv = (Inr (), sv\<lparr>service_log := service_log sv @ [(l, text)]\<rparr>)"


definition on_create_event :: "payload \<Rightarrow> (event_service, handler_result) act" where
  "on_create_event message =
     andthen (global_name ''logger'') (\<lambda>_.
     andthen (service_logger WARNING
                ''You should implement and register you own on_created_event handler'') (\<lambda>_.
       return ResultNone))"

definition call_handler :: "('a \<Rightarrow> exn + handler_result) \<Rightarrow> 'a \<Rightarrow> ('s, handler_result) act" where
  "call_handler handler x = (case handler x of Inl err \<Rightarrow> raise err | Inr result \<Rightarrow> return result)"


definition service_created_event :: "payload \<Rightarrow> (event_service, handler_result) act" where
  "service_created_event message sv =
     (case app_on_created_event sv of
        Some handler \<Rightarrow> call_handler handler message sv
      | None \<Rightarrow>
          (case base_on_created_event sv of
             Some handler \<Rightarrow> call_handler handler message sv
           | None \<Rightarrow> raise (AttributeError ''on_created_event'') sv))"

subsection \<open>A concrete setting\<close>

text \<open>
  A VTN, a parser and a client to run the functions on: the report \<open>S1\<close> of the spec's
  scenario with the descriptor \<open>R1\<close>, sampling between 1 and 60 seconds, and a second
  descriptor \<open>R2\<close> whose callable raises.
\<close>

definition demo_event :: payload where
  "demo_event = empty_payload\<lparr>p_request_id := Some ''req1'',
     p_events := Some [\<lparr>event_descriptor = Some \<lparr>event_id = Some ''event1''\<rparr>\<rparr>]\<rparr>"

definition demo_registered :: payload where
  "demo_registered = empty_payload\<lparr>
     p_response := Some \<lparr>response_code = Some 200, response_description = Some ''OK''\<rparr>,
     p_ven_id := Some ''ven123''\<rparr>"

definition demo_refused :: payload where
  "demo_refused = empty_payload\<lparr>
     p_response := Some \<lparr>response_code = Some 403, response_description = Some ''Forbidden''\<rparr>\<rparr>"

definition demo_parse :: "string \<Rightarrow> exn + string \<times> payload" where
  "demo_parse content =
     (if content = ''registered'' then Inr (''oadrCreatedPartyRegistration'', demo_registered)
      else if content = ''refused'' then Inr (''oadrCreatedPartyRegistration'', demo_refused)
      else if content = ''event'' then Inr (''oadrDistributeEvent'', demo_event)
      else if content = ''nothing'' then Inr (''oadrResponse'', empty_payload)
      else if content = ''update'' then Inr (''oadrUpdateReport'', empty_payload)
      else if content = ''cancel'' then
        Inr (''oadrUpdatedReport'', empty_payload\<lparr>p_cancel_report := Some ''RR1''\<rparr>)
      else Inl (ParseError content))"

definition demo_vtn :: "string \<Rightarrow> message \<Rightarrow> http_outcome" where
  "demo_vtn service message =
     (if service = ''EiRegisterParty'' then Responded 200 ''registered''
      else if service = ''EiReport'' then Responded 200 ''cancel''
      else Responded 200 ''nothing'')"

definition demo_cron_config :: "timedelta option \<Rightarrow> exn + cron" where
  "demo_cron_config granularity =
     (case granularity of
        None \<Rightarrow> Inl (TypeError ''NoneType'')
      | Some d \<Rightarrow> Inr \<lparr>second = StepFrom 0 (td_seconds d), minute = Star, hour = Star\<rparr>)"

definition demo_env :: env where
  "demo_env =
     \<lparr>vtn = demo_vtn, parse_message = demo_parse, decodes = (\<lambda>content. True),
      generate_id = (\<lambda>n. replicate (Suc n) CHR ''i''), now = 0, random = 7,
      cron_config = demo_cron_config,
      REPORT_NAME_values = [''TELEMETRY_USAGE'', ''TELEMETRY_STATUS''],
      READING_TYPE_values = [''Direct Read''],
      REPORT_TYPE_values = [''reading''],
      SI_SCALE_CODE_values = [''none'', ''k''],
      MEASUREMENTS = [(''VOLTAGE'', \<lparr>item_name = ''voltage'', item_description = ''Voltage'',
        item_units = Some ''V'', acceptable_units = [''V''], si_scale_code = None\<rparr>)]\<rparr>"

definition demo_description :: "string \<Rightarrow> exn + scalar \<Rightarrow> report_description" where
  "demo_description rid produces =
     \<lparr>r_id = rid, reading_type = ''Direct Read'', report_data_source = ''meter'',
      report_subject = ''meter'', report_type = ''reading'',
      sampling_rate = \<lparr>min_period = seconds 1, max_period = seconds 60, on_change = False\<rparr>,
      measurement = \<lparr>item_name = ''voltage'', item_description = ''Voltage'',
        item_units = Some ''V'', acceptable_units = [''V''], si_scale_code = Some ''none''\<rparr>,
      market_context = ''Market01'', callable = produces\<rparr>"

definition demo_report :: report where
  "demo_report =
     \<lparr>created_date_time = Some 0, report_name = ''TELEMETRY_USAGE'',
      report_specifier_id = ''S1'', report_request_id = None,
      report_descriptions =
        [demo_description ''R1'' (Inr 42),
         demo_description ''R2'' (Inl (ApplicationError ''sensor''))],
      intervals = []\<rparr>"

definition demo_client :: client where
  "demo_client =
     \<lparr>ven_name = ''ven'', vtn_url = ''http://vtn'', ven_id = None, poll_frequency = None,
      reports = [demo_report], report_requests = [], pending_reports = [],
      scheduler_jobs = [], scheduler_running = False, report_queue_task = False,
      on_event = Some (\<lambda>message. Inr ''optIn''), ids_drawn = 0, trace = []\<rparr>"


definition demo_request ::
  "timedelta option \<Rightarrow> (string \<times> measurement_dict option) list \<Rightarrow> report_request" where
  "demo_request granularity asked =
     \<lparr>rq_report_request_id = ''RR1'',
      rq_report_specifier =
        \<lparr>rs_report_specifier_id = ''S1'', rs_granularity = granularity,
         rs_report_back_duration = None, rs_report_interval = None, rs_dtstart = None,
         rs_duration = None,
         rs_specifier_payloads =
           map (\<lambda>(rid, m). \<lparr>sp_r_id = rid, sp_reading_type = ''Direct Read'',
                             sp_measurement = m\<rparr>) asked\<rparr>\<rparr>"

text \<open>
  The client after the VTN has asked for the given ids of \<open>S1\<close> every 10 seconds, and
  after one tick of that subscription for \<open>R1\<close>.
\<close>

definition demo_subscribed :: "string list \<Rightarrow> client" where
  "demo_subscribed rids =
     snd (create_report demo_env
            (demo_request (Some (seconds 10)) (map (\<lambda>rid. (rid, None)) rids)) demo_client)"

definition demo_ticked :: client where
  "demo_ticked = snd (update_report demo_env ''RR1'' (demo_subscribed [''R1'']))"

text \<open>A VTN whose registration reply offers the poll frequency \<open>freq\<close>.\<close>

definition demo_env_offering :: "timedelta \<Rightarrow> env" where
  "demo_env_offering freq =
     demo_env\<lparr>parse_message := (\<lambda>content.
       if content = ''registered'' then
         Inr (''oadrCreatedPartyRegistration'',
              demo_registered\<lparr>p_requested_oadr_poll_freq := Some freq\<rparr>)
       else demo_parse content)\<rparr>"



section \<open>Properties\<close>

subsection \<open>Auxiliary facts\<close>

lemmas act_defs = andthen_def return_def raise_def modify_def emit_def logger_def subscript_def

lemma perform_request_keeps:
  "\<exists>tr. snd (priv_perform_request env service message outcome s) = s\<lparr>trace := tr\<rparr>"
  by (cases outcome)
     (auto simp: priv_perform_request_def parse_reply_def act_defs split: sum.splits)



lemma registration_payload_ids [simp]:
  "registration_payload opts (s\<lparr>ids_drawn := n\<rparr>) = registration_payload opts s"
  by (simp add: registration_payload_def)
















lemma collect_intervals_all:
  "\<forall>rid \<in> set rids. \<exists>v. reading rep rid = Some (Inr v) \<Longrightarrow>
   \<exists>ivs. collect_intervals env (Some rep) rids = Inr ivs
     \<and> map (\<lambda>iv. payload_r_id (report_payload iv)) ivs = rids
     \<and> (\<forall>iv \<in> set ivs. dtstart iv = now env
          \<and> reading rep (payload_r_id (report_payload iv))
              = Some (Inr (payload_value (report_payload iv))))"
proof (induction rids)
  case Nil
  then show ?case by simp
next
  case (Cons rid rids)
  then obtain ivs where "collect_intervals env (Some rep) rids = Inr ivs"
    and "map (\<lambda>iv. payload_r_id (report_payload iv)) ivs = rids"
    and "\<forall>iv \<in> set ivs. dtstart iv = now env
          \<and> reading rep (payload_r_id (report_payload iv))
              = Some (Inr (payload_value (report_payload iv)))"
    by auto
  moreover from Cons.prems obtain v where "reading rep rid = Some (Inr v)" by auto
  ultimately show ?case
    by (auto simp: reading_def split: option.splits)
qed

lemma collect_intervals_raise:
  "\<forall>r \<in> set pre. \<exists>v. reading rep r = Some (Inr v) \<Longrightarrow> reading rep rid = Some (Inl e) \<Longrightarrow>
   collect_intervals env (Some rep) (pre @ rid # rest) = Inl e"
  by (induction pre) (auto simp: reading_def split: option.splits sum.splits)

lemma td_seconds_nonneg: "0 \<le> td_seconds d"
  by (simp add: td_seconds_def)

subsection \<open>Transport failures and malformed replies\<close>

text \<open>
  C2. For every service name and outbound message, \<^verbatim>\<open>_perform_request\<close> returns the empty
  result \<^verbatim>\<open>(None, {})\<close> without raising, and logs a warning, on a status other than 200;
  it does the same, logging an error, when the connection cannot be made; and when the
  exchange succeeds with status 200 but the reply fails parsing or validation it logs an
  error and raises that error to its caller, which no returned value can be mistaken for.
\<close>

theorem perform_request_unreachable_vs_malformed:
  "(status \<noteq> 200 \<longrightarrow>
      priv_perform_request env service message (Responded status content) s =
        (Inr (None, empty_payload),
         s\<lparr>trace := trace s @ [Log DEBUG ''Client is sending'', Sent service message,
              Log WARNING ''Non-OK status when performing a request'']\<rparr>))
   \<and> priv_perform_request env service message ClientConnectorError s =
        (Inr (None, empty_payload),
         s\<lparr>trace := trace s @ [Log DEBUG ''Client is sending'', Sent service message,
              Log ERROR ''Could not connect to server with URL'',
              Log ERROR ''ClientConnectorError'']\<rparr>)
   \<and> (parse_message env content = Inl err \<longrightarrow>
      fst (priv_perform_request env service message (Responded 200 content) s) = Inl err
      \<and> Log ERROR ''The incoming message could not be parsed or validated''
          \<in> set (trace (snd (priv_perform_request env service message (Responded 200 content) s)))
      \<and> fst (priv_perform_request env service message (Responded 200 content) s)
          \<noteq> Inr (None, empty_payload))"
  by (simp add: priv_perform_request_def parse_reply_def andthen_def logger_def emit_def
      return_def raise_def)

theorem perform_request_unreachable_vs_malformed_witness:
  "(403::int) \<noteq> 200
   \<and> fst (priv_perform_request demo_env ''EiEvent'' (OadrPoll None) (Responded 403 ''garbled'')
            demo_client) = Inr (None, empty_payload)
   \<and> fst (priv_perform_request demo_env ''EiEvent'' (OadrPoll None) ClientConnectorError
            demo_client) = Inr (None, empty_payload)
   \<and> parse_message demo_env ''garbled'' = Inl (ParseError ''garbled'')
   \<and> fst (priv_perform_request demo_env ''EiEvent'' (OadrPoll None) (Responded 200 ''garbled'')
            demo_client) = Inl (ParseError ''garbled'')"
proof -
  have malformed: "parse_message demo_env ''garbled'' = Inl (ParseError ''garbled'')"
    by (simp add: demo_env_def demo_parse_def)
  from malformed perform_request_unreachable_vs_malformed
    [where status = 403 and env = demo_env and service = "''EiEvent''"
       and message = "OadrPoll None" and content = "''garbled''" and s = demo_client
       and err = "ParseError ''garbled''"]
  show ?thesis by simp
qed

subsection \<open>Registration\<close>



subsection \<open>Sampling rates of added reports\<close>




subsection \<open>Negotiation of a report request\<close>






subsection \<open>A tick of a report subscription\<close>

text \<open>
  C8, as stated: a callable that raises for one accepted \<open>r_id\<close> does not abort the tick
  for the others. It does: with \<open>R2\<close> (whose callable raises) and \<open>R1\<close> (whose callable
  returns 42) accepted, \<^verbatim>\<open>update_report\<close> ends in the exception of \<open>R2\<close> and the queue
  stays empty.
\<close>

theorem update_report_counterexample:
  "map rr_r_ids (report_requests (demo_subscribed [''R2'', ''R1''])) = [[''R2'', ''R1'']]
   \<and> reading demo_report ''R2'' = Some (Inl (ApplicationError ''sensor''))
   \<and> reading demo_report ''R1'' = Some (Inr 42)
   \<and> fst (update_report demo_env ''RR1'' (demo_subscribed [''R2'', ''R1'']))
       = Inl (ApplicationError ''sensor'')
   \<and> pending_reports (snd (update_report demo_env ''RR1'' (demo_subscribed [''R2'', ''R1''])))
       = []"
  by code_simp

text \<open>
  C8, amended. On a tick of an existing subscription to an existing report: if the
  callable of every accepted \<open>r_id\<close> returns, one report is put on the queue, with one
  interval for each accepted \<open>r_id\<close>, in order, stamped with the clock and carrying the
  value returned; if the callables of the ids before some \<open>r_id\<close> return and the callable
  of that \<open>r_id\<close> raises, the exception leaves \<^verbatim>\<open>update_report\<close> and the client is as it was
  before the tick, with nothing put on the queue.
\<close>

theorem update_report_all_or_nothing:
  assumes "find_by (report_requests s) (\<lambda>rr. rr_report_request_id rr = request_id) = Some entry"
    and "find_by (reports s) (\<lambda>r. report_specifier_id r = rr_report_specifier_id entry) = Some rep"
  shows "((\<forall>rid \<in> set (rr_r_ids entry). \<exists>v. reading rep rid = Some (Inr v))
      \<longrightarrow> fst (update_report env request_id s) = Inr ()
        \<and> (\<exists>ivs. snd (update_report env request_id s)
               = s\<lparr>pending_reports := pending_reports s @ [pending_report rep request_id ivs]\<rparr>
             \<and> map (\<lambda>iv. payload_r_id (report_payload iv)) ivs = rr_r_ids entry
             \<and> (\<forall>iv \<in> set ivs. dtstart iv = now env
                  \<and> reading rep (payload_r_id (report_payload iv))
                      = Some (Inr (payload_value (report_payload iv))))))
    \<and> (rr_r_ids entry = pre @ rid # rest
        \<and> (\<forall>r \<in> set pre. \<exists>v. reading rep r = Some (Inr v))
        \<and> reading rep rid = Some (Inl e)
      \<longrightarrow> update_report env request_id s = (Inl e, s))"
proof (intro conjI impI)
  assume "\<forall>rid \<in> set (rr_r_ids entry). \<exists>v. reading rep rid = Some (Inr v)"
  from collect_intervals_all [OF this, of env]
  obtain ivs where c: "collect_intervals env (Some rep) (rr_r_ids entry) = Inr ivs"
    and rest: "map (\<lambda>iv. payload_r_id (report_payload iv)) ivs = rr_r_ids entry"
      "\<forall>iv \<in> set ivs. dtstart iv = now env
          \<and> reading rep (payload_r_id (report_payload iv))
              = Some (Inr (payload_value (report_payload iv)))"
    by blast
  from assms c have run: "update_report env request_id s
      = (Inr (), s\<lparr>pending_reports := pending_reports s @ [pending_report rep request_id ivs]\<rparr>)"
    by (simp add: update_report_def Let_def act_defs)
  from run show "fst (update_report env request_id s) = Inr ()" by simp
  from run rest show "\<exists>ivs. snd (update_report env request_id s)
               = s\<lparr>pending_reports := pending_reports s @ [pending_report rep request_id ivs]\<rparr>
             \<and> map (\<lambda>iv. payload_r_id (report_payload iv)) ivs = rr_r_ids entry
             \<and> (\<forall>iv \<in> set ivs. dtstart iv = now env
                  \<and> reading rep (payload_r_id (report_payload iv))
                      = Some (Inr (payload_value (report_payload iv))))"
    by auto
next
  assume a: "rr_r_ids entry = pre @ rid # rest
        \<and> (\<forall>r \<in> set pre. \<exists>v. reading rep r = Some (Inr v))
        \<and> reading rep rid = Some (Inl e)"
  then have "collect_intervals env (Some rep) (rr_r_ids entry) = Inl e"
    using collect_intervals_raise [of pre rep rid e env rest] by simp
  with assms show "update_report env request_id s = (Inl e, s)"
    by (simp add: update_report_def Let_def act_defs)
qed

theorem update_report_all_or_nothing_witness:
  "find_by (report_requests (demo_subscribed [''R1'']))
       (\<lambda>rr. rr_report_request_id rr = ''RR1'')
     = Some (hd (report_requests (demo_subscribed [''R1''])))
   \<and> rr_r_ids (hd (report_requests (demo_subscribed [''R1'']))) = [''R1'']
   \<and> reading demo_report ''R1'' = Some (Inr 42)
   \<and> fst (update_report demo_env ''RR1'' (demo_subscribed [''R1''])) = Inr ()
   \<and> rr_r_ids (hd (report_requests (demo_subscribed [''R2'', ''R1''])))
     = [] @ ''R2'' # [''R1'']
   \<and> reading demo_report ''R2'' = Some (Inl (ApplicationError ''sensor''))
   \<and> fst (update_report demo_env ''RR1'' (demo_subscribed [''R2'', ''R1'']))
     = Inl (ApplicationError ''sensor'')"
proof -
  let ?one = "demo_subscribed [''R1'']"
  let ?two = "demo_subscribed [''R2'', ''R1'']"
  have entry1: "find_by (report_requests ?one) (\<lambda>rr. rr_report_request_id rr = ''RR1'')
      = Some (hd (report_requests ?one))"
    by code_simp
  have report1: "find_by (reports ?one)
      (\<lambda>r. report_specifier_id r = rr_report_specifier_id (hd (report_requests ?one)))
      = Some demo_report"
    by code_simp
  have ids1: "rr_r_ids (hd (report_requests ?one)) = [''R1'']"
    by code_simp
  have entry2: "find_by (report_requests ?two) (\<lambda>rr. rr_report_request_id rr = ''RR1'')
      = Some (hd (report_requests ?two))"
    by code_simp
  have report2: "find_by (reports ?two)
      (\<lambda>r. report_specifier_id r = rr_report_specifier_id (hd (report_requests ?two)))
      = Some demo_report"
    by code_simp
  have ids2: "rr_r_ids (hd (report_requests ?two)) = [] @ ''R2'' # [''R1'']"
    by code_simp
  have r1: "reading demo_report ''R1'' = Some (Inr 42)"
    and r2: "reading demo_report ''R2'' = Some (Inl (ApplicationError ''sensor''))"
    by code_simp+
  from update_report_all_or_nothing [OF entry1 report1, where env = demo_env] ids1 r1
  have first: "fst (update_report demo_env ''RR1'' ?one) = Inr ()"
    by simp
  from update_report_all_or_nothing [OF entry2 report2, where env = demo_env and pre = "[]"
      and rid = "''R2''" and rest = "[''R1'']" and e = "ApplicationError ''sensor''"] ids2 r2
  have second: "fst (update_report demo_env ''RR1'' ?two) = Inl (ApplicationError ''sensor'')"
    by simp
  from entry1 ids1 r1 first ids2 r2 second show ?thesis by simp
qed

subsection \<open>Cancellation requested by the VTN\<close>

text \<open>
  C9. The client has the subscription \<open>RR1\<close> with its job, and one report on the queue.
  The worker sends the report; the VTN's reply asks to cancel \<open>RR1\<close>; the worker calls
  \<^verbatim>\<open>cancel_report\<close>. Afterwards the queue is empty, and the subscription and its job are
  still there: \<^verbatim>\<open>cancel_report\<close> returns without touching the client.
\<close>

theorem cancel_report_keeps_job_and_request:
  "map rr_report_request_id (report_requests demo_ticked) = [''RR1'']
   \<and> map func (scheduler_jobs demo_ticked) = [UpdateReportJob ''RR1'']
   \<and> map report_request_id (pending_reports demo_ticked) = [Some ''RR1'']
   \<and> fst (priv_perform_request demo_env ''EiReport''
        (OadrUpdateReport (pending_reports demo_ticked))
        (vtn demo_env ''EiReport'' (OadrUpdateReport (pending_reports demo_ticked))) demo_ticked)
     = Inr (Some ''oadrUpdatedReport'', empty_payload\<lparr>p_cancel_report := Some ''RR1''\<rparr>)
   \<and> fst (priv_report_queue_worker demo_env demo_ticked) = Inr ()
   \<and> pending_reports (snd (priv_report_queue_worker demo_env demo_ticked)) = []
   \<and> map rr_report_request_id (report_requests (snd (priv_report_queue_worker demo_env demo_ticked)))
     = [''RR1'']
   \<and> map func (scheduler_jobs (snd (priv_report_queue_worker demo_env demo_ticked)))
     = [UpdateReportJob ''RR1'']
   \<and> fst (cancel_report ''RR1'' demo_ticked) = Inr ()
   \<and> map rr_report_request_id (report_requests (snd (cancel_report ''RR1'' demo_ticked)))
     = [''RR1'']
   \<and> map func (scheduler_jobs (snd (cancel_report ''RR1'' demo_ticked)))
     = [UpdateReportJob ''RR1'']"
  by code_simp

subsection \<open>The cadence of the poll job\<close>

text \<open>
  The cron fields that \<^verbatim>\<open>run\<close> derives from the poll frequency, band by band: below a
  minute, below an hour, below a day; above a day nothing is returned to schedule, and at
  exactly a day the fields are unbound.
\<close>

lemma poll_trigger_bands:
  "fst (poll_trigger env freq s) =
     (if freq < seconds 60 then
        Inr (Some \<lparr>second = StepFrom (random env mod (td_seconds freq + 1)) (td_seconds freq),
                   minute = Star, hour = Star\<rparr>)
      else if freq < seconds 3600 then
        Inr (Some \<lparr>second = At (random env mod 60), minute = EveryN (freq div seconds 60),
                   hour = Star\<rparr>)
      else if freq < seconds 86400 then
        Inr (Some \<lparr>second = At (random env mod 60), minute = At 0,
                   hour = EveryN (freq div seconds 3600)\<rparr>)
      else if seconds 86400 < freq then Inr None
      else Inl (UnboundLocalError ''cron_second''))"
  using td_seconds_nonneg [of freq]
  by (simp add: poll_trigger_def randint_def act_defs)

text \<open>From 86400 seconds on, the end of \<^verbatim>\<open>run\<close> adds no job and does not start the scheduler.\<close>

lemma schedule_polling_from_a_day_on:
  assumes "poll_frequency s = Some freq" and "seconds 86400 \<le> freq"
  shows "scheduler_jobs (snd (schedule_polling env s)) = scheduler_jobs s
    \<and> scheduler_running (snd (schedule_polling env s)) = scheduler_running s"
  using assms
  by (simp add: schedule_polling_def poll_trigger_def randint_def act_defs seconds_def)

text \<open>
  C6. The VTN offers a poll frequency of 90000 seconds: \<^verbatim>\<open>run\<close> logs the warning and
  returns with no job scheduled and the scheduler not started. With exactly 86400 seconds
  \<^verbatim>\<open>run\<close> ends in \<open>UnboundLocalError\<close>, again with no job. With 7200 seconds the job is
  scheduled on the hour, every 2 hours.
\<close>

theorem run_does_not_schedule_from_a_day_on:
  "poll_frequency (snd (run (demo_env_offering (seconds 90000)) [Responded 200 ''nothing'']
      demo_client)) = Some (seconds 90000)
   \<and> fst (run (demo_env_offering (seconds 90000)) [Responded 200 ''nothing''] demo_client)
     = Inr ()
   \<and> Log WARNING ''Polling with intervals of more than 24 hours is not supported.''
       \<in> set (trace (snd (run (demo_env_offering (seconds 90000)) [Responded 200 ''nothing'']
             demo_client)))
   \<and> scheduler_jobs (snd (run (demo_env_offering (seconds 90000)) [Responded 200 ''nothing'']
        demo_client)) = []
   \<and> scheduler_running (snd (run (demo_env_offering (seconds 90000)) [Responded 200 ''nothing'']
        demo_client)) = False
   \<and> fst (run (demo_env_offering (seconds 86400)) [Responded 200 ''nothing''] demo_client)
     = Inl (UnboundLocalError ''cron_second'')
   \<and> scheduler_jobs (snd (run (demo_env_offering (seconds 86400)) [Responded 200 ''nothing'']
        demo_client)) = []
   \<and> map trigger (scheduler_jobs (snd (run (demo_env_offering (seconds 7200))
        [Responded 200 ''nothing''] demo_client)))
     = [\<lparr>second = At 7, minute = At 0, hour = EveryN 2\<rparr>]"
  by code_simp

subsection \<open>Handlers that the application has not set\<close>




subsection \<open>The poll loop\<close>

text \<open>
  Counting on the trace, and the actions that are steady: a request to a service other than
  the poll endpoint, a registration, the acknowledgement of an event. Handling an event
  invokes \<open>on_event\<close> once when it returns; a poll that is answered sends one poll.
\<close>

lemma polls_sent_simps [simp]:
  "polls_sent [] = 0"
  "polls_sent (a @ b) = polls_sent a + polls_sent b"
  "polls_sent (Log l why # tr) = polls_sent tr"
  "polls_sent (Called name # tr) = polls_sent tr"
  "polls_sent (Breakpoint # tr) = polls_sent tr"
  "polls_sent (Sent service m # tr) = (if service = ''OadrPoll'' then 1 else 0) + polls_sent tr"
  by (simp_all add: polls_sent_def is_poll_def)

lemma dispatched_simps [simp]:
  "dispatched [] = 0"
  "dispatched (a @ b) = dispatched a + dispatched b"
  "dispatched (Log l why # tr) = dispatched tr"
  "dispatched (Called name # tr) = (if name = ''on_event'' then 1 else 0) + dispatched tr"
  "dispatched (Breakpoint # tr) = dispatched tr"
  "dispatched (Sent service m # tr) = dispatched tr"
  by (simp_all add: dispatched_def is_dispatch_def)


lemma steady_return [intro!]: "steady (return x)"
  and steady_raise [intro!]: "steady (raise e)"
  and steady_logger [intro!]: "steady (logger l why)"
  and steady_subscript [intro!]: "steady (subscript key v)"
  and steady_draw_id [intro!]: "steady (draw_id env)"
  by (simp_all add: steady_def act_defs draw_id_def split: option.splits)


















end
